theory Spec2Isabelle
  imports Main "HOL-Library.Word"
begin

unbundle bit_operations_syntax

section \<open>GPU register file (core/hw/gpu.h)\<close>

type_synonym u32 = "32 word"

subsection \<open>Structure layout\<close>

text \<open>
  \<open>struct Regs\<close> is a standard-layout structure all of whose leaves are \<open>u32\<close>
  (or \<open>uint32_t\<close>), so every member is 4-byte aligned and the compiler inserts no
  padding of its own. A layout is measured in 32-bit words. \<open>Pad n\<close> is the member
  declared by \<open>INSERT_PADDING_WORDS(n)\<close> (a \<open>u32 padLINE[n]\<close>), \<open>BitField pos bits\<close>
  a \<open>BitFieldLegacy<pos, bits, u32>\<close> member of a union, which shares the storage of
  the union's \<open>u32\<close>.
\<close>

datatype layout =
    U32
  | BitField nat nat
  | Pad nat
  | Arr nat layout
  | Struct "(string \<times> layout) list"
  | Union "(string \<times> layout) list"

fun words :: "layout \<Rightarrow> nat" where
  "words U32 = 1"
| "words (BitField pos bits) = 1"
| "words (Pad n) = n"
| "words (Arr n t) = n * words t"
| "words (Struct ms) = sum_list (map (\<lambda>m. words (snd m)) ms)"
| "words (Union ms) = fold max (map (\<lambda>m. words (snd m)) ms) 0"

text \<open>Which words of a layout are padding, in address order.\<close>

fun padding_map :: "layout \<Rightarrow> bool list" where
  "padding_map U32 = [False]"
| "padding_map (BitField pos bits) = [False]"
| "padding_map (Pad n) = replicate n True"
| "padding_map (Arr n t) = concat (replicate n (padding_map t))"
| "padding_map (Struct ms) = concat (map (\<lambda>m. padding_map (snd m)) ms)"
| "padding_map (Union ms) = replicate (fold max (map (\<lambda>m. words (snd m)) ms) 0) False"

text \<open>\<open>offsetof\<close>, in words, of a member of a structure with the given member list.\<close>

fun offset_of :: "(string \<times> layout) list \<Rightarrow> string \<Rightarrow> nat option" where
  "offset_of [] f = None"
| "offset_of (m # ms) f =
     (if fst m = f then Some 0 else map_option (\<lambda>k. words (snd m) + k) (offset_of ms f))"

text \<open>The anonymous member structures, in declaration order (gpu.h lines 74-113,
  118-156, 161-249 and 254-271).\<close>

definition memory_fill_members :: "(string \<times> layout) list" where
  "memory_fill_members =
    [(''address_start'', U32),
     (''address_end'', U32),
     (''value'', Union [(''value_32bit'', U32),
                        (''value_16bit'', BitField 0 16),
                        (''value_24bit_r'', BitField 0 8),
                        (''value_24bit_g'', BitField 8 8),
                        (''value_24bit_b'', BitField 16 8)]),
     (''control'', Union [(''control'', U32),
                          (''trigger'', BitField 0 1),
                          (''finished'', BitField 1 1),
                          (''fill_24bit'', BitField 8 1),
                          (''fill_32bit'', BitField 9 1)])]"

definition framebuffer_members :: "(string \<times> layout) list" where
  "framebuffer_members =
    [(''size'', Union [(''size'', U32), (''width'', BitField 0 16), (''height'', BitField 16 16)]),
     (''pad126'', Pad 0x2),
     (''address_left1'', U32),
     (''address_left2'', U32),
     (''format'', U32),
     (''pad137'', Pad 0x1),
     (''active_fb'', Union [(''active_fb'', U32), (''second_fb_active'', BitField 0 1)]),
     (''pad147'', Pad 0x5),
     (''stride'', U32),
     (''address_right1'', U32),
     (''address_right2'', U32),
     (''pad155'', Pad 0x30)]"

definition texture_copy_members :: "(string \<times> layout) list" where
  "texture_copy_members =
    [(''total_bytes_to_copy'', U32),
     (''input_size_with_padding'', U32),
     (''output_size_with_padding'', U32)]"

definition display_transfer_members :: "(string \<times> layout) list" where
  "display_transfer_members =
    [(''input_address'', U32),
     (''output_address'', U32),
     (''display_transfer'', Struct
        [(''output_size'', Union [(''output_size'', U32),
                                  (''output_width'', BitField 0 16),
                                  (''output_height'', BitField 16 16)]),
         (''input_size'', Union [(''input_size'', U32),
                                 (''input_width'', BitField 0 16),
                                 (''input_height'', BitField 16 16)])]),
     (''flags'', Union [(''flags'', U32),
                        (''flip_data'', BitField 0 1),
                        (''convert_to_tiled'', BitField 1 1),
                        (''is_raw_copy'', BitField 3 1),
                        (''disable_untiling'', BitField 5 1),
                        (''input_format'', BitField 8 3),
                        (''output_format'', BitField 12 3),
                        (''output_tiled'', BitField 16 1),
                        (''scaling_mode'', BitField 24 2)]),
     (''pad213'', Pad 0x1),
     (''trigger'', U32),
     (''pad218'', Pad 0x1),
     (''texture_copy'', Struct texture_copy_members)]"

definition command_processor_members :: "(string \<times> layout) list" where
  "command_processor_members =
    [(''size'', U32),
     (''pad258'', Pad 0x1),
     (''address'', U32),
     (''pad263'', Pad 0x1),
     (''trigger'', U32)]"

text \<open>\<open>struct Regs\<close> itself (gpu.h lines 39-302).\<close>

definition Regs_members :: "(string \<times> layout) list" where
  "Regs_members =
    [(''pad72'', Pad 0x4),
     (''memory_fill_config'', Arr 2 (Struct memory_fill_members)),
     (''pad116'', Pad 0x10b),
     (''framebuffer_config'', Arr 2 (Struct framebuffer_members)),
     (''pad159'', Pad 0x169),
     (''display_transfer_config'', Struct display_transfer_members),
     (''pad252'', Pad 0x32d),
     (''command_processor_config'', Struct command_processor_members),
     (''pad274'', Pad 0x9c3)]"

definition Regs_layout :: layout where
  "Regs_layout = Struct Regs_members"

text \<open>\<open>sizeof(Regs)\<close> in bytes and \<open>Regs::NumIds()\<close> = \<open>sizeof(Regs) / sizeof(u32)\<close>.\<close>

definition sizeof_Regs :: nat where
  "sizeof_Regs = 4 * words Regs_layout"

definition NumIds :: nat where
  "NumIds = sizeof_Regs div 4"

text \<open>\<open>GPU_REG_INDEX(field_name)\<close> = \<open>offsetof(GPU::Regs, field_name) / sizeof(u32)\<close>,
  for a member and for an element of an array member.\<close>

definition GPU_REG_INDEX :: "string \<Rightarrow> nat option" where
  "GPU_REG_INDEX field_name = offset_of Regs_members field_name"

definition GPU_REG_INDEX_ELEM :: "string \<Rightarrow> nat \<Rightarrow> nat option" where
  "GPU_REG_INDEX_ELEM field_name i =
     (case (offset_of Regs_members field_name, map_of Regs_members field_name) of
        (Some k, Some (Arr n t)) \<Rightarrow> if i < n then Some (k + i * words t) else None
      | _ \<Rightarrow> None)"

text \<open>Word index of a member of a member structure: base index plus the member's
  offset inside the structure.\<close>

definition member_index :: "nat option \<Rightarrow> (string \<times> layout) list \<Rightarrow> string \<Rightarrow> nat option" where
  "member_index base ms f =
     (case (base, offset_of ms f) of (Some b, Some k) \<Rightarrow> Some (b + k) | _ \<Rightarrow> None)"

subsection \<open>Bit fields\<close>

text \<open>
  Modelled from the spec: \<open>BitFieldLegacy<pos, bits, u32>\<close> is declared in
  \<open>common/bit_field.h\<close>, which is not among the sources. The specification describes it
  as a mask-and-shift accessor over the plain 32-bit integer it shares a union with:
  \<open>Value()\<close> reads \<open>bits\<close> bits starting at bit \<open>pos\<close>, assignment replaces exactly
  those bits.
\<close>

definition BitField_Value :: "nat \<Rightarrow> nat \<Rightarrow> u32 \<Rightarrow> u32" where
  "BitField_Value pos bits storage = take_bit bits (drop_bit pos storage)"

text \<open>Modelled from the spec: assignment to a \<open>BitFieldLegacy\<close> member
  (\<open>common/bit_field.h\<close> is not among the sources).\<close>

definition BitField_Assign :: "nat \<Rightarrow> nat \<Rightarrow> u32 \<Rightarrow> u32 \<Rightarrow> u32" where
  "BitField_Assign pos bits storage v =
     (storage AND NOT (push_bit pos (mask bits))) OR push_bit pos (take_bit bits v)"

subsection \<open>Physical address decoding\<close>

text \<open>\<open>static inline u32 DecodeAddressRegister(u32 register_value)\<close>: unsigned 32-bit
  multiplication, which wraps.\<close>

definition DecodeAddressRegister :: "u32 \<Rightarrow> u32" where
  "DecodeAddressRegister register_value = register_value * 8"

subsection \<open>Framebuffer formats\<close>

text \<open>
  Modelled from the spec: \<open>GenericImageFormat\<close> is declared in
  \<open>framework/image_format.hpp\<close>, which is not among the sources. These are the five
  enumerators that \<open>format_map\<close> names and the specification's format table lists.
\<close>

datatype GenericImageFormat = RGBA8 | RGB8 | RGB565 | RGBA5551 | RGBA4

record FramebufferFormat =
  raw :: u32

definition format_map :: "GenericImageFormat list" where
  "format_map = [RGBA8, RGB8, RGB565, RGBA5551, RGBA4]"

datatype error = OutOfRange | InvalidFormat

text \<open>
  Modelled from the spec: the function that looks a \<open>FramebufferFormat\<close> up in
  \<open>format_map\<close> is not in gpu.h. The specification says that a format code outside the
  five defined values is surfaced as InvalidFormat at the lookup, and that any 3-bit value
  may be stored.
\<close>

definition format_lookup :: "FramebufferFormat \<Rightarrow> error + GenericImageFormat" where
  "format_lookup f =
     (if unat (raw f) < length format_map then Inr (format_map ! unat (raw f))
      else Inl InvalidFormat)"

subsection \<open>The member structures as values\<close>

record memory_fill_config =
  address_start :: u32
  address_end :: u32
  value_32bit :: u32
  control :: u32

definition value_16bit :: "memory_fill_config \<Rightarrow> u32" where
  "value_16bit c = BitField_Value 0 16 (value_32bit c)"

definition value_24bit_r :: "memory_fill_config \<Rightarrow> u32" where
  "value_24bit_r c = BitField_Value 0 8 (value_32bit c)"

definition value_24bit_g :: "memory_fill_config \<Rightarrow> u32" where
  "value_24bit_g c = BitField_Value 8 8 (value_32bit c)"

definition value_24bit_b :: "memory_fill_config \<Rightarrow> u32" where
  "value_24bit_b c = BitField_Value 16 8 (value_32bit c)"

definition trigger :: "memory_fill_config \<Rightarrow> u32" where
  "trigger c = BitField_Value 0 1 (control c)"

definition finished :: "memory_fill_config \<Rightarrow> u32" where
  "finished c = BitField_Value 1 1 (control c)"

definition fill_24bit :: "memory_fill_config \<Rightarrow> u32" where
  "fill_24bit c = BitField_Value 8 1 (control c)"

definition fill_32bit :: "memory_fill_config \<Rightarrow> u32" where
  "fill_32bit c = BitField_Value 9 1 (control c)"

definition GetStartAddress :: "memory_fill_config \<Rightarrow> u32" where
  "GetStartAddress c = DecodeAddressRegister (address_start c)"

definition GetEndAddress :: "memory_fill_config \<Rightarrow> u32" where
  "GetEndAddress c = DecodeAddressRegister (address_end c)"

record texture_copy_t =
  total_bytes_to_copy :: u32
  input_size_with_padding :: u32
  output_size_with_padding :: u32

definition InputBytesPerLine :: "texture_copy_t \<Rightarrow> u32" where
  "InputBytesPerLine t = (input_size_with_padding t AND 0xffff) * 16"

definition OutputBytesPerLine :: "texture_copy_t \<Rightarrow> u32" where
  "OutputBytesPerLine t = (output_size_with_padding t AND 0xffff) * 16"

definition InputPaddingBytesPerLine :: "texture_copy_t \<Rightarrow> u32" where
  "InputPaddingBytesPerLine t = drop_bit 16 (input_size_with_padding t) * 16"

definition OutputPaddingBytesPerLine :: "texture_copy_t \<Rightarrow> u32" where
  "OutputPaddingBytesPerLine t = drop_bit 16 (output_size_with_padding t) * 16"

definition InputTotalBytesPerLine :: "texture_copy_t \<Rightarrow> u32" where
  "InputTotalBytesPerLine t = InputBytesPerLine t + InputPaddingBytesPerLine t"

definition OutputTotalBytesPerLine :: "texture_copy_t \<Rightarrow> u32" where
  "OutputTotalBytesPerLine t = OutputBytesPerLine t + OutputPaddingBytesPerLine t"

record display_transfer_config =
  input_address :: u32
  output_address :: u32
  output_size :: u32
  input_size :: u32
  flags :: u32
  transfer_trigger :: u32
  texture_copy :: texture_copy_t

definition GetPhysicalInputAddress :: "display_transfer_config \<Rightarrow> u32" where
  "GetPhysicalInputAddress c = DecodeAddressRegister (input_address c)"

definition GetPhysicalOutputAddress :: "display_transfer_config \<Rightarrow> u32" where
  "GetPhysicalOutputAddress c = DecodeAddressRegister (output_address c)"

definition input_format :: "display_transfer_config \<Rightarrow> u32" where
  "input_format c = BitField_Value 8 3 (flags c)"

definition output_format :: "display_transfer_config \<Rightarrow> u32" where
  "output_format c = BitField_Value 12 3 (flags c)"

definition GetInputFormat :: "display_transfer_config \<Rightarrow> FramebufferFormat" where
  "GetInputFormat c = \<lparr>raw = input_format c\<rparr>"

definition GetOutputFormat :: "display_transfer_config \<Rightarrow> FramebufferFormat" where
  "GetOutputFormat c = \<lparr>raw = output_format c\<rparr>"

text \<open>The members \<open>size\<close>, \<open>address\<close> and \<open>trigger\<close> of \<open>command_processor_config\<close>
  carry the prefix \<open>list_\<close> here, and the \<open>trigger\<close> word of
  \<open>display_transfer_config\<close> is \<open>transfer_trigger\<close>: the three structures share one
  name space in this theory.\<close>

record command_processor_config =
  list_size :: u32
  list_address :: u32
  list_trigger :: u32

definition GetPhysicalAddress :: "command_processor_config \<Rightarrow> u32" where
  "GetPhysicalAddress c = DecodeAddressRegister (list_address c)"

subsection \<open>Word-indexed access\<close>

text \<open>
  \<open>u32& operator [] (int index)\<close> casts \<open>this\<close> to \<open>u32*\<close> and returns
  \<open>content[index]\<close>: pointer arithmetic with no comparison of \<open>index\<close> against
  anything. The reference it returns is modelled by the byte address it denotes.
\<close>

definition Regs_subscript :: "int \<Rightarrow> int \<Rightarrow> int" where
  "Regs_subscript this index = this + 4 * index"

text \<open>A \<open>u32\<close> at byte address \<open>a\<close> lies inside the \<open>Regs\<close> object at \<open>this\<close>.\<close>

definition inside_Regs :: "int \<Rightarrow> int \<Rightarrow> bool" where
  "inside_Regs this a = (this \<le> a \<and> a + 4 \<le> this + int sizeof_Regs)"

subsection \<open>The register file as a sequence of words\<close>

text \<open>
  The typed members are views of the words of the register file: member \<open>f\<close> of
  \<open>memory_fill_config[i]\<close> is the word at the index that the layout gives it, and so on
  for the other structures.
\<close>

definition memory_fill_index :: "nat \<Rightarrow> string \<Rightarrow> nat" where
  "memory_fill_index i f =
     the (member_index (GPU_REG_INDEX_ELEM ''memory_fill_config'' i) memory_fill_members f)"

definition display_transfer_index :: "string \<Rightarrow> nat" where
  "display_transfer_index f =
     the (member_index (GPU_REG_INDEX ''display_transfer_config'') display_transfer_members f)"

definition texture_copy_index :: "string \<Rightarrow> nat" where
  "texture_copy_index f =
     the (member_index (Some (display_transfer_index ''texture_copy'')) texture_copy_members f)"

definition command_processor_index :: "string \<Rightarrow> nat" where
  "command_processor_index f =
     the (member_index (GPU_REG_INDEX ''command_processor_config'') command_processor_members f)"

definition memory_fill_config_of :: "u32 list \<Rightarrow> nat \<Rightarrow> memory_fill_config" where
  "memory_fill_config_of ws i =
     \<lparr>address_start = ws ! memory_fill_index i ''address_start'',
      address_end = ws ! memory_fill_index i ''address_end'',
      value_32bit = ws ! memory_fill_index i ''value'',
      control = ws ! memory_fill_index i ''control''\<rparr>"

definition texture_copy_of :: "u32 list \<Rightarrow> texture_copy_t" where
  "texture_copy_of ws =
     \<lparr>total_bytes_to_copy = ws ! texture_copy_index ''total_bytes_to_copy'',
      input_size_with_padding = ws ! texture_copy_index ''input_size_with_padding'',
      output_size_with_padding = ws ! texture_copy_index ''output_size_with_padding''\<rparr>"

definition display_transfer_config_of :: "u32 list \<Rightarrow> display_transfer_config" where
  "display_transfer_config_of ws =
     \<lparr>input_address = ws ! display_transfer_index ''input_address'',
      output_address = ws ! display_transfer_index ''output_address'',
      output_size = ws ! display_transfer_index ''display_transfer'',
      input_size = ws ! (display_transfer_index ''display_transfer'' + 1),
      flags = ws ! display_transfer_index ''flags'',
      transfer_trigger = ws ! display_transfer_index ''trigger'',
      texture_copy = texture_copy_of ws\<rparr>"

definition command_processor_config_of :: "u32 list \<Rightarrow> command_processor_config" where
  "command_processor_config_of ws =
     \<lparr>list_size = ws ! command_processor_index ''size'',
      list_address = ws ! command_processor_index ''address'',
      list_trigger = ws ! command_processor_index ''trigger''\<rparr>"

subsection \<open>Dispatch interface and engine triggers\<close>

text \<open>
  Modelled from the spec: gpu.h only declares \<open>template <typename T> void Read(Pica::Context&,
  T&, const u32)\<close> and \<open>void Write(Pica::Context&, u32, const T)\<close>; their definitions,
  and with them the three engine triggers, are not among the sources. What follows is
  the specification's description of them for \<open>T = u32\<close> (the specification leaves the
  narrower accesses open):
  \<^item> the offset is a byte offset into the register space and is converted to the word
    index offset / 4; an offset beyond the space fails with OutOfRange;
  \<^item> a write stores the value; if the word is one of the trigger words
    (\<open>memory_fill_config[i].control\<close>, \<open>display_transfer_config.trigger\<close>,
    \<open>command_processor_config.trigger\<close>) and its trigger bit goes from 0 to 1, the
    engine's step runs before the write returns;
  \<^item> memory fill: the physical range and the fill width and value go to the memory-write
    collaborator, then \<open>finished\<close> is set to 1 and \<open>trigger\<close> to 0;
  \<^item> display transfer: the whole configuration goes to the blit collaborator in one
    call; no status bit;
  \<^item> command processor: the decoded address and the size, in 8-byte units, go to the
    command-list collaborator; no status bit;
  \<^item> a read returns the current word and changes nothing.
  The collaborators are outside the program; the state records the calls made to them,
  in order.
\<close>

text \<open>Modelled from the spec: what the memory-write collaborator receives as fill
  width and value (the 16-bit, the 24-bit R, G, B or the 32-bit reading of the value
  word), and the three collaborator calls of section 6 of the specification.\<close>

datatype fill_value = Fill16 u32 | Fill24 u32 u32 u32 | Fill32 u32

datatype collaborator_call =
    MemoryWrite u32 u32 fill_value
  | Blit u32 u32 display_transfer_config
  | CommandList u32 u32

record gpu_state =
  g_regs :: "u32 list"
  calls :: "collaborator_call list"

text \<open>Modelled from the spec: the engine that a trigger word starts; the dispatch code
  that decides it is not among the sources.\<close>

datatype engine = MemoryFill nat | DisplayTransfer | CommandProcessor

definition engine_of_word :: "nat \<Rightarrow> engine option" where
  "engine_of_word w =
     (if w = memory_fill_index 0 ''control'' then Some (MemoryFill 0)
      else if w = memory_fill_index 1 ''control'' then Some (MemoryFill 1)
      else if w = display_transfer_index ''trigger'' then Some DisplayTransfer
      else if w = command_processor_index ''trigger'' then Some CommandProcessor
      else None)"

text \<open>Modelled from the spec: the fill width is chosen by \<open>fill_24bit\<close> and
  \<open>fill_32bit\<close>, 16 bits when both are unset (the memory-fill engine is not among the
  sources).\<close>

definition fill_value_of :: "memory_fill_config \<Rightarrow> fill_value" where
  "fill_value_of c =
     (if fill_24bit c = 1 then Fill24 (value_24bit_r c) (value_24bit_g c) (value_24bit_b c)
      else if fill_32bit c = 1 then Fill32 (value_32bit c)
      else Fill16 (value_16bit c))"

text \<open>Modelled from the spec: the memory-fill engine, which is not among the sources.
  It hands the decoded range and the fill value to the collaborator, then sets
  \<open>finished\<close> to 1 and \<open>trigger\<close> to 0.\<close>

definition memory_fill_step :: "nat \<Rightarrow> gpu_state \<Rightarrow> gpu_state" where
  "memory_fill_step i s =
     (let c = memory_fill_config_of (g_regs s) i;
          call = MemoryWrite (GetStartAddress c) (GetEndAddress c) (fill_value_of c);
          completed = BitField_Assign 0 1 (BitField_Assign 1 1 (control c) 1) 0
      in s\<lparr>g_regs := (g_regs s)[memory_fill_index i ''control'' := completed],
            calls := calls s @ [call]\<rparr>)"

text \<open>Modelled from the spec: the display-transfer trigger, which is not among the
  sources. One call to the blit collaborator with the decoded addresses and the
  configuration; no status bit.\<close>

definition display_transfer_step :: "gpu_state \<Rightarrow> gpu_state" where
  "display_transfer_step s =
     (let c = display_transfer_config_of (g_regs s)
      in s\<lparr>calls := calls s @ [Blit (GetPhysicalInputAddress c) (GetPhysicalOutputAddress c) c]\<rparr>)"

text \<open>Modelled from the spec: the command-processor trigger, which is not among the
  sources. One call to the command-list collaborator with the decoded address and the
  size in 8-byte units; no status bit.\<close>

definition command_processor_step :: "gpu_state \<Rightarrow> gpu_state" where
  "command_processor_step s =
     (let c = command_processor_config_of (g_regs s)
      in s\<lparr>calls := calls s @ [CommandList (GetPhysicalAddress c) (list_size c)]\<rparr>)"

text \<open>Modelled from the spec: the step of each engine, as above.\<close>

fun engine_step :: "engine \<Rightarrow> gpu_state \<Rightarrow> gpu_state" where
  "engine_step (MemoryFill i) s = memory_fill_step i s"
| "engine_step DisplayTransfer s = display_transfer_step s"
| "engine_step CommandProcessor s = command_processor_step s"

text \<open>Modelled from the spec: the trigger bit of a trigger word is its bit 0 (the
  dispatch code is not among the sources).\<close>

definition trigger_bit :: "u32 \<Rightarrow> u32" where
  "trigger_bit w = BitField_Value 0 1 w"

text \<open>Modelled from the spec: the definition of \<open>Read\<close>, which gpu.h only declares,
  for \<open>T = u32\<close>.\<close>

definition Read :: "gpu_state \<Rightarrow> u32 \<Rightarrow> error + u32" where
  "Read s addr =
     (if sizeof_Regs \<le> unat addr then Inl OutOfRange
      else Inr (g_regs s ! (unat addr div 4)))"

text \<open>Modelled from the spec: the definition of \<open>Write\<close>, which gpu.h only declares,
  for \<open>T = u32\<close>.\<close>

definition Write :: "gpu_state \<Rightarrow> u32 \<Rightarrow> u32 \<Rightarrow> error + gpu_state" where
  "Write s addr data =
     (if sizeof_Regs \<le> unat addr then Inl OutOfRange
      else
        let index = unat addr div 4;
            old = g_regs s ! index;
            s' = s\<lparr>g_regs := (g_regs s)[index := data]\<rparr>
        in case engine_of_word index of
             Some e \<Rightarrow>
               if trigger_bit old = 0 \<and> trigger_bit data = 1 then Inr (engine_step e s')
               else Inr s'
           | None \<Rightarrow> Inr s')"

text \<open>The words that belong to no named member, and the byte offsets that the
  dispatch interface maps to a trigger word or to padding.\<close>

definition padding_word :: "nat \<Rightarrow> bool" where
  "padding_word w = (w < length (padding_map Regs_layout) \<and> padding_map Regs_layout ! w)"

definition trigger_offset :: "u32 \<Rightarrow> bool" where
  "trigger_offset addr = (engine_of_word (unat addr div 4) \<noteq> None)"

definition padding_offset :: "u32 \<Rightarrow> bool" where
  "padding_offset addr = padding_word (unat addr div 4)"

definition valid_offset :: "u32 \<Rightarrow> bool" where
  "valid_offset addr = (unat addr < sizeof_Regs \<and> unat addr mod 4 = 0)"

text \<open>A register file of the size of \<open>Regs\<close>.\<close>

definition wf_state :: "gpu_state \<Rightarrow> bool" where
  "wf_state s = (length (g_regs s) = NumIds)"

text \<open>The register file of a freshly started device: \<open>g_regs\<close> has static storage
  duration and no initialiser, so every word is zero.\<close>

definition zero_state :: gpu_state where
  "zero_state = \<lparr>g_regs = replicate 4096 0, calls = []\<rparr>"

section \<open>Layout of the register file\<close>

lemmas layout_defs = Regs_layout_def Regs_members_def memory_fill_members_def
  framebuffer_members_def display_transfer_members_def texture_copy_members_def
  command_processor_members_def

lemma sizeof_Regs_value: "sizeof_Regs = 16384"
  by (simp add: sizeof_Regs_def layout_defs)

lemma NumIds_value: "NumIds = 4096"
  by (simp add: NumIds_def sizeof_Regs_value)

text \<open>The sizes that \<open>ASSERT_MEMBER_SIZE\<close> checks (gpu.h lines 114, 157, 250, 272), in
  bytes.\<close>

lemma member_sizes:
  "4 * words (Struct memory_fill_members) = 0x10"
  "4 * words (Struct framebuffer_members) = 0x100"
  "4 * words (Struct display_transfer_members) = 0x2c"
  "4 * words (Struct command_processor_members) = 0x14"
  by (simp_all add: layout_defs)

text \<open>
  C1. Every named register field sits at the word offset of the fixed offset table:
  \<open>memory_fill_config[0]\<close> at 0x004, \<open>memory_fill_config[1]\<close> at 0x008,
  \<open>framebuffer_config[0]\<close> at 0x117, \<open>framebuffer_config[1]\<close> at 0x157,
  \<open>display_transfer_config\<close> at 0x300 and \<open>command_processor_config\<close> at 0x638; the
  register file is 0x1000 words, 16384 bytes. The offsets are computed from the member
  declarations of \<open>struct Regs\<close>, as \<open>offsetof\<close> computes them.
\<close>

theorem register_offsets_match_table:
  "GPU_REG_INDEX_ELEM ''memory_fill_config'' 0 = Some 0x004
   \<and> GPU_REG_INDEX_ELEM ''memory_fill_config'' 1 = Some 0x008
   \<and> GPU_REG_INDEX_ELEM ''framebuffer_config'' 0 = Some 0x117
   \<and> GPU_REG_INDEX_ELEM ''framebuffer_config'' 1 = Some 0x157
   \<and> GPU_REG_INDEX ''display_transfer_config'' = Some 0x300
   \<and> GPU_REG_INDEX ''command_processor_config'' = Some 0x638
   \<and> words Regs_layout = 0x1000
   \<and> NumIds = 0x1000
   \<and> sizeof_Regs = 16384"
proof -
  have "GPU_REG_INDEX_ELEM ''memory_fill_config'' 0 = Some 0x004"
    and "GPU_REG_INDEX_ELEM ''memory_fill_config'' 1 = Some 0x008"
    by (simp_all add: GPU_REG_INDEX_ELEM_def layout_defs)
  moreover have "GPU_REG_INDEX_ELEM ''framebuffer_config'' 0 = Some 0x117"
    and "GPU_REG_INDEX_ELEM ''framebuffer_config'' 1 = Some 0x157"
    by (simp_all add: GPU_REG_INDEX_ELEM_def layout_defs)
  moreover have "GPU_REG_INDEX ''display_transfer_config'' = Some 0x300"
    and "GPU_REG_INDEX ''command_processor_config'' = Some 0x638"
    by (simp_all add: GPU_REG_INDEX_def layout_defs)
  moreover have "words Regs_layout = 0x1000"
    by (simp add: layout_defs)
  ultimately show ?thesis
    by (simp add: NumIds_value sizeof_Regs_value)
qed

section \<open>Texture copy line sizes\<close>

lemma unat_low16: "unat ((x :: u32) AND 0xffff) = unat x mod 65536"
proof -
  have "(x AND 0xffff) = x mod 65536"
    using take_bit_eq_mask [of 16 x] by (simp add: mask_eq_exp_minus_1 take_bit_eq_mod)
  then show ?thesis by (simp add: unat_mod_distrib)
qed

lemma unat_high16: "unat (drop_bit 16 (x :: u32)) = unat x div 65536"
  by (simp add: drop_bit_eq_div unat_div_distrib)

lemma unat_lt32: "unat (x :: u32) < 4294967296"
  using unsigned_less [of x, where 'a = nat] by simp

lemma unat_times16: "unat a < 65536 \<Longrightarrow> unat ((a :: u32) * 16) = 16 * unat a"
  by (simp add: unat_word_ariths)

lemma unat_low16_times16: "unat (((x :: u32) AND 0xffff) * 16) = 16 * (unat x mod 65536)"
  by (rule trans [OF unat_times16]) (simp_all add: unat_low16)

lemma unat_high16_times16: "unat (drop_bit 16 (x :: u32) * 16) = 16 * (unat x div 65536)"
proof -
  have "unat x div 65536 < 65536" using unat_lt32 [of x] by simp
  then show ?thesis
    by (simp add: unat_times16 unat_high16)
qed

lemma unat_line_total:
  "unat (((x :: u32) AND 0xffff) * 16 + drop_bit 16 x * 16)
     = 16 * (unat x mod 65536) + 16 * (unat x div 65536)"
proof -
  have "unat x div 65536 < 65536" using unat_lt32 [of x] by simp
  moreover have "unat x mod 65536 < 65536" by simp
  ultimately have "16 * (unat x mod 65536) + 16 * (unat x div 65536) < 4294967296"
    by linarith
  then show ?thesis
    by (simp add: unat_word_ariths(1) unat_low16_times16 unat_high16_times16)
qed

text \<open>
  C2, as the specification words it: \<open>InputBytesPerLine()\<close> equals
  \<open>input_size_with_padding & 0xffff\<close>. At the value 0x00050010 the low half is 0x10 = 16
  and the accessor returns 256.
\<close>

theorem bytes_per_line_is_not_low_half:
  "InputBytesPerLine \<lparr>total_bytes_to_copy = 0, input_size_with_padding = 0x00050010,
      output_size_with_padding = 0\<rparr> \<noteq> 0x00050010 AND 0xffff"
  by (simp add: InputBytesPerLine_def)

text \<open>
  C2, amended. The two halves of a size word count 16-byte steps: for every 32-bit value
  of \<open>input_size_with_padding\<close>, \<open>InputBytesPerLine()\<close> is 16 times its low 16 bits and
  \<open>InputPaddingBytesPerLine()\<close> is 16 times its high 16 bits, with no wrap-around; the
  same for the output accessors and \<open>output_size_with_padding\<close>.
\<close>

theorem bytes_per_line_sixteen_times_halves:
  "unat (InputBytesPerLine t) = 16 * (unat (input_size_with_padding t) mod 2 ^ 16)
   \<and> unat (InputPaddingBytesPerLine t) = 16 * (unat (input_size_with_padding t) div 2 ^ 16)
   \<and> unat (OutputBytesPerLine t) = 16 * (unat (output_size_with_padding t) mod 2 ^ 16)
   \<and> unat (OutputPaddingBytesPerLine t) = 16 * (unat (output_size_with_padding t) div 2 ^ 16)"
  by (simp add: InputBytesPerLine_def InputPaddingBytesPerLine_def OutputBytesPerLine_def
      OutputPaddingBytesPerLine_def unat_low16_times16 unat_high16_times16)

text \<open>
  C6. With \<open>input_size_with_padding\<close> = 0x00050010, whatever the other two members hold,
  \<open>InputBytesPerLine()\<close> = 256, \<open>InputPaddingBytesPerLine()\<close> = 80 and
  \<open>InputTotalBytesPerLine()\<close> = 336.
\<close>

theorem line_sizes_at_00050010:
  "InputBytesPerLine \<lparr>total_bytes_to_copy = n, input_size_with_padding = 0x00050010,
      output_size_with_padding = m\<rparr> = 256
   \<and> InputPaddingBytesPerLine \<lparr>total_bytes_to_copy = n, input_size_with_padding = 0x00050010,
      output_size_with_padding = m\<rparr> = 80
   \<and> InputTotalBytesPerLine \<lparr>total_bytes_to_copy = n, input_size_with_padding = 0x00050010,
      output_size_with_padding = m\<rparr> = 336"
  by (simp add: InputBytesPerLine_def InputPaddingBytesPerLine_def InputTotalBytesPerLine_def
      drop_bit_eq_div)

text \<open>
  C10. For every value of the two size words, the total per line is the sum of the bytes
  and the padding per line, as 32-bit words and as numbers (the sum does not wrap), and
  each of the six per-line quantities is a multiple of 16.
\<close>

theorem line_totals_and_multiples_of_16:
  "InputTotalBytesPerLine t = InputBytesPerLine t + InputPaddingBytesPerLine t
   \<and> OutputTotalBytesPerLine t = OutputBytesPerLine t + OutputPaddingBytesPerLine t
   \<and> unat (InputTotalBytesPerLine t)
       = unat (InputBytesPerLine t) + unat (InputPaddingBytesPerLine t)
   \<and> unat (OutputTotalBytesPerLine t)
       = unat (OutputBytesPerLine t) + unat (OutputPaddingBytesPerLine t)
   \<and> 16 dvd unat (InputBytesPerLine t)
   \<and> 16 dvd unat (InputPaddingBytesPerLine t)
   \<and> 16 dvd unat (InputTotalBytesPerLine t)
   \<and> 16 dvd unat (OutputBytesPerLine t)
   \<and> 16 dvd unat (OutputPaddingBytesPerLine t)
   \<and> 16 dvd unat (OutputTotalBytesPerLine t)"
proof -
  have sums: "unat (InputTotalBytesPerLine t)
        = unat (InputBytesPerLine t) + unat (InputPaddingBytesPerLine t)"
      "unat (OutputTotalBytesPerLine t)
        = unat (OutputBytesPerLine t) + unat (OutputPaddingBytesPerLine t)"
    by (simp_all add: InputTotalBytesPerLine_def OutputTotalBytesPerLine_def
        InputBytesPerLine_def InputPaddingBytesPerLine_def OutputBytesPerLine_def
        OutputPaddingBytesPerLine_def unat_line_total unat_low16_times16 unat_high16_times16)
  have parts: "16 dvd unat (InputBytesPerLine t)" "16 dvd unat (InputPaddingBytesPerLine t)"
      "16 dvd unat (OutputBytesPerLine t)" "16 dvd unat (OutputPaddingBytesPerLine t)"
    by (simp_all add: InputBytesPerLine_def InputPaddingBytesPerLine_def OutputBytesPerLine_def
        OutputPaddingBytesPerLine_def unat_low16_times16 unat_high16_times16)
  then have "16 dvd unat (InputTotalBytesPerLine t)" "16 dvd unat (OutputTotalBytesPerLine t)"
    by (simp_all only: sums dvd_add)
  with sums parts show ?thesis
    by (simp add: InputTotalBytesPerLine_def OutputTotalBytesPerLine_def)
qed

section \<open>Physical address decoding\<close>

text \<open>
  C5. For every 32-bit register value \<open>x\<close> the decoded address is \<open>x * 8\<close> reduced modulo
  \<open>2 ^ 32\<close>; 0 decodes to 0 and 0xFFFFFFFF to 0xFFFFFFF8. The memory-fill start and end
  addresses, the display-transfer input and output addresses and the command-list
  address are all decoded by this one function.
\<close>

theorem decode_is_times_8_everywhere:
  "unat (DecodeAddressRegister x) = (unat x * 8) mod 2 ^ 32
   \<and> DecodeAddressRegister 0 = 0
   \<and> DecodeAddressRegister 0xFFFFFFFF = 0xFFFFFFF8
   \<and> unat (GetStartAddress mf) = (unat (address_start mf) * 8) mod 2 ^ 32
   \<and> unat (GetEndAddress mf) = (unat (address_end mf) * 8) mod 2 ^ 32
   \<and> unat (GetPhysicalInputAddress dt) = (unat (input_address dt) * 8) mod 2 ^ 32
   \<and> unat (GetPhysicalOutputAddress dt) = (unat (output_address dt) * 8) mod 2 ^ 32
   \<and> unat (GetPhysicalAddress cp) = (unat (list_address cp) * 8) mod 2 ^ 32"
  by (simp add: DecodeAddressRegister_def GetStartAddress_def GetEndAddress_def
      GetPhysicalInputAddress_def GetPhysicalOutputAddress_def GetPhysicalAddress_def
      unat_word_ariths)

section \<open>Word-indexed access\<close>

text \<open>
  C3, as the specification words it: an index outside 0..4095 is rejected and never
  reaches storage outside the array. \<open>operator []\<close> compares nothing; at index 4096 it
  denotes the word that starts 16384 bytes after the start of the register file, which
  is outside it.
\<close>

theorem subscript_4096_outside_register_file:
  "\<not> inside_Regs 0 (Regs_subscript 0 4096)"
  by (simp add: inside_Regs_def Regs_subscript_def sizeof_Regs_value)

text \<open>
  C3, amended. \<open>operator []\<close> performs no range check and has no failure: index \<open>i\<close>
  denotes the word 4 * \<open>i\<close> bytes from the start of the register file, distinct indices
  denote distinct words (nothing is clamped), and the word lies inside the 4096-word
  array exactly when \<open>i\<close> is in 0..4095.
\<close>

theorem subscript_inside_iff_in_range:
  "inside_Regs this (Regs_subscript this i) = (0 \<le> i \<and> i \<le> 4095)
   \<and> (Regs_subscript this i = Regs_subscript this j) = (i = j)
   \<and> Regs_subscript this i - this = 4 * i"
  by (auto simp add: inside_Regs_def Regs_subscript_def sizeof_Regs_value)

section \<open>Framebuffer format lookup\<close>

text \<open>
  C7. The lookup maps 0 to RGBA8, 1 to RGB8, 2 to RGB565, 3 to RGBA5551 and 4 to RGBA4,
  the table has these five entries and no other, and every raw value above 4 (5 among
  them) gives InvalidFormat and no format.
\<close>

theorem format_lookup_table:
  "format_lookup \<lparr>raw = 0\<rparr> = Inr RGBA8
   \<and> format_lookup \<lparr>raw = 1\<rparr> = Inr RGB8
   \<and> format_lookup \<lparr>raw = 2\<rparr> = Inr RGB565
   \<and> format_lookup \<lparr>raw = 3\<rparr> = Inr RGBA5551
   \<and> format_lookup \<lparr>raw = 4\<rparr> = Inr RGBA4
   \<and> length format_map = 5
   \<and> (4 < unat r \<longrightarrow> format_lookup \<lparr>raw = r\<rparr> = Inl InvalidFormat)
   \<and> format_lookup \<lparr>raw = 5\<rparr> = Inl InvalidFormat"
  by (simp add: format_lookup_def format_map_def)

theorem format_lookup_table_witness:
  "4 < unat (5 :: u32) \<and> format_lookup \<lparr>raw = 5\<rparr> = Inl InvalidFormat
   \<and> format_lookup \<lparr>raw = 2\<rparr> = Inr RGB565"
  using format_lookup_table [of 5] by simp

section \<open>Dispatch interface and engine triggers\<close>

text \<open>The word indices of the members that the dispatch interface and the engines
  use, computed from the layout.\<close>

lemma memory_fill_index_0:
  "memory_fill_index 0 ''address_start'' = 4" "memory_fill_index 0 ''address_end'' = 5"
  "memory_fill_index 0 ''value'' = 6" "memory_fill_index 0 ''control'' = 7"
  by (simp_all add: memory_fill_index_def member_index_def GPU_REG_INDEX_ELEM_def layout_defs)

lemma memory_fill_index_1:
  "memory_fill_index 1 ''address_start'' = 8" "memory_fill_index 1 ''address_end'' = 9"
  "memory_fill_index 1 ''value'' = 10" "memory_fill_index 1 ''control'' = 11"
  by (simp_all add: memory_fill_index_def member_index_def GPU_REG_INDEX_ELEM_def layout_defs)

lemma display_transfer_trigger_index: "display_transfer_index ''trigger'' = 774"
  by (simp add: display_transfer_index_def member_index_def GPU_REG_INDEX_def layout_defs)

lemma command_processor_index_values:
  "command_processor_index ''size'' = 1592" "command_processor_index ''address'' = 1594"
  "command_processor_index ''trigger'' = 1596"
  by (simp_all add: command_processor_index_def member_index_def GPU_REG_INDEX_def layout_defs)

lemmas index_values = memory_fill_index_0 memory_fill_index_1
  memory_fill_index_1 [unfolded One_nat_def] display_transfer_trigger_index
  command_processor_index_values

lemma engine_of_word_cases:
  "engine_of_word w =
     (if w = 7 then Some (MemoryFill 0) else if w = 11 then Some (MemoryFill 1)
      else if w = 774 then Some DisplayTransfer else if w = 1596 then Some CommandProcessor
      else None)"
  by (simp add: engine_of_word_def index_values)

lemma BitField_done:
  "BitField_Value 1 1 (BitField_Assign 0 1 (BitField_Assign 1 1 c 1) 0) = 1"
  "BitField_Value 0 1 (BitField_Assign 0 1 (BitField_Assign 1 1 c 1) 0) = 0"
  by (rule bit_word_eqI; simp add: BitField_Value_def BitField_Assign_def bit_simps; fail)+


lemmas BitField_done' = BitField_done [unfolded One_nat_def]

lemma Write_plain:
  assumes "unat addr < 16384" and "engine_of_word (unat addr div 4) = None"
  shows "Write s addr data = Inr (s\<lparr>g_regs := (g_regs s)[unat addr div 4 := data]\<rparr>)"
  using assms by (simp add: Write_def sizeof_Regs_value Let_def)

lemma Write_trigger:
  assumes "unat addr < 16384" and "engine_of_word (unat addr div 4) = Some e"
    and "trigger_bit (g_regs s ! (unat addr div 4)) = 0" and "trigger_bit data = 1"
  shows "Write s addr data = Inr (engine_step e (s\<lparr>g_regs := (g_regs s)[unat addr div 4 := data]\<rparr>))"
  using assms by (simp add: Write_def sizeof_Regs_value Let_def)

lemma memory_fill_step_0:
  assumes "length (g_regs s) = 4096"
  shows "finished (memory_fill_config_of (g_regs (memory_fill_step 0 s)) 0) = 1"
    and "trigger (memory_fill_config_of (g_regs (memory_fill_step 0 s)) 0) = 0"
    and "memory_fill_config_of (g_regs (memory_fill_step 0 s)) 1 = memory_fill_config_of (g_regs s) 1"
  using assms
  by (simp_all add: memory_fill_step_def memory_fill_config_of_def index_values trigger_def
      finished_def BitField_done' Let_def)

lemma memory_fill_step_1:
  assumes "length (g_regs s) = 4096"
  shows "finished (memory_fill_config_of (g_regs (memory_fill_step 1 s)) 1) = 1"
    and "trigger (memory_fill_config_of (g_regs (memory_fill_step 1 s)) 1) = 0"
    and "memory_fill_config_of (g_regs (memory_fill_step 1 s)) 0 = memory_fill_config_of (g_regs s) 0"
  using assms
  by (simp_all add: memory_fill_step_def memory_fill_config_of_def index_values trigger_def
      finished_def BitField_done' Let_def)

lemma memory_fill_config_of_update_control:
  "memory_fill_config_of (ws[7 := v]) 1 = memory_fill_config_of ws 1"
  "memory_fill_config_of (ws[11 := v]) 0 = memory_fill_config_of ws 0"
  by (simp_all add: memory_fill_config_of_def index_values)

lemma zero_state_wf: "wf_state zero_state"
  by (simp add: wf_state_def zero_state_def NumIds_value)

lemma trigger_bit_1: "trigger_bit 1 = 1"
  by (simp add: trigger_bit_def BitField_Value_def)

text \<open>
  C4. For each unit \<open>i\<close> in 0, 1: in a register file of the size of \<open>Regs\<close> where the
  trigger bit of \<open>memory_fill_config[i].control\<close> is 0, a write to that word of a value
  with the trigger bit set succeeds, and when it returns (the fill has run) the control
  word has \<open>finished\<close> = 1 and \<open>trigger\<close> = 0, and the four words of the other unit are
  what they were.
\<close>

theorem memory_fill_trigger_completes:
  assumes "i < 2" and "wf_state s"
    and "trigger (memory_fill_config_of (g_regs s) i) = 0"
    and "trigger_bit data = 1"
  shows "\<exists>s'. Write s (word_of_nat (4 * memory_fill_index i ''control'')) data = Inr s'
           \<and> finished (memory_fill_config_of (g_regs s') i) = 1
           \<and> trigger (memory_fill_config_of (g_regs s') i) = 0
           \<and> memory_fill_config_of (g_regs s') (1 - i) = memory_fill_config_of (g_regs s) (1 - i)"
proof -
  have len: "length (g_regs s) = 4096"
    using \<open>wf_state s\<close> by (simp add: wf_state_def NumIds_value)
  from \<open>i < 2\<close> consider "i = 0" | "i = 1" by linarith
  then show ?thesis
  proof cases
    case 1
    let ?s1 = "s\<lparr>g_regs := (g_regs s)[7 := data]\<rparr>"
    have old: "trigger_bit (g_regs s ! 7) = 0"
      using assms(3) 1 by (simp add: trigger_def trigger_bit_def memory_fill_config_of_def index_values)
    have "Write s 28 data = Inr (engine_step (MemoryFill 0) ?s1)"
      using Write_trigger [of 28 "MemoryFill 0" s data] old assms(4)
      by (simp add: engine_of_word_cases)
    moreover have "length (g_regs ?s1) = 4096" using len by simp
    ultimately show ?thesis
      using 1 memory_fill_step_0 [of ?s1]
      by (simp add: index_values memory_fill_config_of_update_control [unfolded One_nat_def])
  next
    case 2
    let ?s1 = "s\<lparr>g_regs := (g_regs s)[11 := data]\<rparr>"
    have old: "trigger_bit (g_regs s ! 11) = 0"
      using assms(3) 2 by (simp add: trigger_def trigger_bit_def memory_fill_config_of_def index_values)
    have "Write s 44 data = Inr (engine_step (MemoryFill 1) ?s1)"
      using Write_trigger [of 44 "MemoryFill 1" s data] old assms(4)
      by (simp add: engine_of_word_cases)
    moreover have "length (g_regs ?s1) = 4096" using len by simp
    ultimately show ?thesis
      using 2 memory_fill_step_1 [of ?s1]
      by (simp add: index_values memory_fill_config_of_update_control [unfolded One_nat_def])
  qed
qed

theorem memory_fill_trigger_completes_witness:
  "(1::nat) < 2 \<and> wf_state zero_state
   \<and> trigger (memory_fill_config_of (g_regs zero_state) 1) = 0
   \<and> trigger_bit 1 = 1
   \<and> (\<exists>s'. Write zero_state (word_of_nat (4 * memory_fill_index 1 ''control'')) 1 = Inr s'
           \<and> finished (memory_fill_config_of (g_regs s') 1) = 1
           \<and> trigger (memory_fill_config_of (g_regs s') 1) = 0
           \<and> memory_fill_config_of (g_regs s') (1 - 1)
               = memory_fill_config_of (g_regs zero_state) (1 - 1))"
proof -
  have h1: "(1::nat) < 2" by simp
  have h3: "trigger (memory_fill_config_of (g_regs zero_state) 1) = 0"
    by (simp add: trigger_def memory_fill_config_of_def zero_state_def index_values
        BitField_Value_def)
  show ?thesis
    using h1 zero_state_wf h3 trigger_bit_1 memory_fill_trigger_completes [OF h1 zero_state_wf h3 trigger_bit_1]
    by (intro conjI)
qed

text \<open>
  C8. For every valid byte offset (inside the register space and word-aligned) that is
  neither a trigger word nor padding, and every value \<open>v\<close>, \<open>Write\<close> of \<open>v\<close> succeeds
  and a following \<open>Read\<close> of the same offset returns \<open>v\<close>.
\<close>

theorem write_then_read_returns_value:
  assumes "wf_state s" and "valid_offset addr"
    and "\<not> trigger_offset addr" and "\<not> padding_offset addr"
  shows "\<exists>s'. Write s addr v = Inr s' \<and> Read s' addr = Inr v"
proof -
  have len: "length (g_regs s) = 4096"
    using \<open>wf_state s\<close> by (simp add: wf_state_def NumIds_value)
  have lt: "unat addr < 16384"
    using \<open>valid_offset addr\<close> by (simp add: valid_offset_def sizeof_Regs_value)
  then have idx: "unat addr div 4 < length (g_regs s)"
    using len by simp
  have "engine_of_word (unat addr div 4) = None"
    using \<open>\<not> trigger_offset addr\<close> by (simp add: trigger_offset_def)
  then have "Write s addr v = Inr (s\<lparr>g_regs := (g_regs s)[unat addr div 4 := v]\<rparr>)"
    using lt by (rule Write_plain [rotated])
  moreover have "Read (s\<lparr>g_regs := (g_regs s)[unat addr div 4 := v]\<rparr>) addr = Inr v"
    using lt idx by (simp add: Read_def sizeof_Regs_value)
  ultimately show ?thesis by simp
qed

theorem write_then_read_returns_value_witness:
  "wf_state zero_state \<and> valid_offset 16 \<and> \<not> trigger_offset 16 \<and> \<not> padding_offset 16
   \<and> (\<exists>s'. Write zero_state 16 0xDEADBEEF = Inr s' \<and> Read s' 16 = Inr 0xDEADBEEF)"
proof -
  have h2: "valid_offset 16"
    by (simp add: valid_offset_def sizeof_Regs_value)
  have h3: "\<not> trigger_offset 16"
    by (simp add: trigger_offset_def engine_of_word_cases)
  have h4: "\<not> padding_offset 16"
  proof -
    have "\<not> padding_word 4" by code_simp
    then show ?thesis by (simp add: padding_offset_def)
  qed
  show ?thesis
    using zero_state_wf h2 h3 h4 write_then_read_returns_value [OF zero_state_wf h2 h3 h4, of "0xDEADBEEF"]
    by (intro conjI)
qed

text \<open>
  C9. When \<open>command_processor_config.size\<close> is 4 and \<open>command_processor_config.address\<close>
  is 0x1000, a write that takes the trigger bit of \<open>command_processor_config.trigger\<close>
  from 0 to 1 makes one more collaborator call, the command list at physical address
  0x8000 with 4 units.
\<close>

theorem command_processor_trigger_delegates:
  assumes "wf_state s"
    and "list_size (command_processor_config_of (g_regs s)) = 4"
    and "list_address (command_processor_config_of (g_regs s)) = 0x1000"
    and "trigger_bit (list_trigger (command_processor_config_of (g_regs s))) = 0"
    and "trigger_bit data = 1"
  shows "\<exists>s'. Write s (word_of_nat (4 * command_processor_index ''trigger'')) data = Inr s'
           \<and> calls s' = calls s @ [CommandList 0x8000 4]"
proof -
  have len: "length (g_regs s) = 4096"
    using \<open>wf_state s\<close> by (simp add: wf_state_def NumIds_value)
  let ?s1 = "s\<lparr>g_regs := (g_regs s)[1596 := data]\<rparr>"
  have old: "trigger_bit (g_regs s ! 1596) = 0"
    using assms(4) by (simp add: command_processor_config_of_def index_values)
  have w: "Write s 6384 data = Inr (engine_step CommandProcessor ?s1)"
    using Write_trigger [of 6384 CommandProcessor s data] old assms(5)
    by (simp add: engine_of_word_cases)
  have "g_regs s ! 1592 = 4" and "g_regs s ! 1594 = 0x1000"
    using assms(2,3) by (simp_all add: command_processor_config_of_def index_values)
  then have "calls (command_processor_step ?s1) = calls s @ [CommandList 0x8000 4]"
    using len
    by (simp add: command_processor_step_def command_processor_config_of_def index_values
        GetPhysicalAddress_def DecodeAddressRegister_def Let_def)
  with w show ?thesis
    by (simp add: index_values)
qed

theorem command_processor_trigger_delegates_witness:
  "wf_state (zero_state\<lparr>g_regs := (g_regs zero_state)[1592 := 4, 1594 := 0x1000]\<rparr>)
   \<and> list_size (command_processor_config_of
        (g_regs (zero_state\<lparr>g_regs := (g_regs zero_state)[1592 := 4, 1594 := 0x1000]\<rparr>))) = 4
   \<and> list_address (command_processor_config_of
        (g_regs (zero_state\<lparr>g_regs := (g_regs zero_state)[1592 := 4, 1594 := 0x1000]\<rparr>))) = 0x1000
   \<and> trigger_bit (list_trigger (command_processor_config_of
        (g_regs (zero_state\<lparr>g_regs := (g_regs zero_state)[1592 := 4, 1594 := 0x1000]\<rparr>)))) = 0
   \<and> trigger_bit 1 = 1
   \<and> (\<exists>s'. Write (zero_state\<lparr>g_regs := (g_regs zero_state)[1592 := 4, 1594 := 0x1000]\<rparr>)
              (word_of_nat (4 * command_processor_index ''trigger'')) 1 = Inr s'
           \<and> calls s' = calls (zero_state\<lparr>g_regs := (g_regs zero_state)[1592 := 4, 1594 := 0x1000]\<rparr>)
               @ [CommandList 0x8000 4])"
proof -
  let ?s = "zero_state\<lparr>g_regs := (g_regs zero_state)[1592 := 4, 1594 := 0x1000]\<rparr>"
  have h1: "wf_state ?s"
    by (simp add: wf_state_def zero_state_def NumIds_value)
  have h2: "list_size (command_processor_config_of (g_regs ?s)) = 4"
    by (simp add: command_processor_config_of_def zero_state_def index_values)
  have h3: "list_address (command_processor_config_of (g_regs ?s)) = 0x1000"
    by (simp add: command_processor_config_of_def zero_state_def index_values)
  have h4: "trigger_bit (list_trigger (command_processor_config_of (g_regs ?s))) = 0"
    by (simp add: command_processor_config_of_def zero_state_def index_values
        trigger_bit_def BitField_Value_def)
  show ?thesis
    using h1 h2 h3 h4 trigger_bit_1 command_processor_trigger_delegates [OF h1 h2 h3 h4 trigger_bit_1]
    by (intro conjI)
qed

end
